theory Spec2Isabelle
  imports Complex_Main
begin

section \<open>Data model of the visit ledger (src/models/Visit.js)\<close>

text \<open>
  Mongoose ObjectIds are carried as strings. A JavaScript Number is modelled as an exact
  real: the ledger only adds, subtracts, multiplies, divides by 100 and compares with 0.
  A value that JavaScript may leave \<^verbatim>\<open>undefined\<close> is an \<open>option\<close>.
  Timestamps, vital signs, symptoms, diagnoses, room, notes and duration of a visit are
  not read by any of the operations below and are left out of the records.
  The path \<^verbatim>\<open>prescriptions\<close> of a visit is declared as one ObjectId reference
  (\<^verbatim>\<open>{ type: ObjectId, ref: 'Prescription' }\<close>), not as an array.
\<close>

type_synonym objectId = string
type_synonym number = real

record labOrder =
  lo_id :: objectId
  lo_testName :: "string option"
  lo_patient :: objectId
  lo_orderedBy :: objectId
  lo_status :: string
  lo_notes :: "string option"
  lo_price :: number
  lo_paymentStatus :: string

text \<open>The object that the prescription route builds.\<close>

record prescription =
  rx_medication :: "string option"
  rx_dosage :: "string option"
  rx_frequency :: "string option"
  rx_duration :: "string option"
  rx_patient :: objectId
  rx_prescribedBy :: objectId
  rx_price :: number
  rx_paymentStatus :: string

record serviceCharge =
  sc_serviceType :: string
  sc_serviceName :: "string option"
  sc_serviceId :: "objectId option"
  sc_price :: number
  sc_quantity :: number
  sc_totalPrice :: number
  sc_isCoveredByInsurance :: bool
  sc_insuranceCoverage :: number
  sc_patientResponsibility :: number
  sc_paymentStatus :: string
  sc_paidAmount :: number
  sc_addedBy :: objectId
  sc_notes :: "string option"

record paymentRecord =
  pr_amount :: number
  pr_paymentMethod :: string
  pr_paymentType :: string
  pr_receiptNumber :: "string option"
  pr_transactionId :: "string option"
  pr_receivedBy :: objectId
  pr_notes :: "string option"

record visit =
  oid :: objectId
  visitId :: "string option"
  patient :: objectId
  doctor :: "objectId option"
  status :: string
  visitType :: "string option"
  reason :: "string option"
  startedBy :: objectId
  labOrders :: "labOrder list"
  prescriptions :: "objectId option"
  serviceCharges :: "serviceCharge list"
  paymentRecords :: "paymentRecord list"
  totalCharges :: number
  insuranceCoverage :: number
  patientResponsibility :: number
  totalPaid :: number
  outstandingBalance :: number
  consultationFeePaid :: bool
  consultationFeeAmount :: number
  allServicesPaid :: bool
  isActive :: bool

text \<open>The argument objects of \<^verbatim>\<open>addServiceCharge\<close> and \<^verbatim>\<open>recordPayment\<close>.
  The three destructuring defaults of \<^verbatim>\<open>addServiceCharge\<close> (quantity = 1,
  hasInsurance = false, insuranceCoveragePercentage = 0) apply when the field is absent.\<close>

record serviceData =
  sd_serviceType :: string
  sd_serviceName :: "string option"
  sd_serviceId :: "objectId option"
  sd_price :: number
  sd_quantity :: "number option"
  sd_hasInsurance :: "bool option"
  sd_insuranceCoveragePercentage :: "number option"
  sd_notes :: "string option"

record paymentData =
  pd_amount :: number
  pd_paymentMethod :: string
  pd_paymentType :: string
  pd_receiptNumber :: "string option"
  pd_transactionId :: "string option"
  pd_notes :: "string option"

record paymentSummary =
  ps_visitId :: "string option"
  ps_totalCharges :: number
  ps_insuranceCoverage :: number
  ps_patientResponsibility :: number
  ps_totalPaid :: number
  ps_outstandingBalance :: number
  ps_consultationFeePaid :: bool
  ps_allServicesPaid :: bool
  ps_serviceCharges :: "serviceCharge list"
  ps_paymentRecords :: "paymentRecord list"

section \<open>Ledger methods of a visit\<close>

text \<open>\<^verbatim>\<open>calculateFinancials\<close>: six assignments in the order of the source, each
  reading the fields as the earlier assignments left them. \<^verbatim>\<open>reduce\<close> with
  initial value 0 is a left fold.\<close>

definition calculateFinancials :: "visit \<Rightarrow> visit" where
  "calculateFinancials this0 =
    (let this1 = this0\<lparr>totalCharges :=
                   foldl (\<lambda>sum charge. sum + sc_totalPrice charge) 0 (serviceCharges this0)\<rparr>;
         this2 = this1\<lparr>insuranceCoverage :=
                   foldl (\<lambda>sum charge. sum + sc_insuranceCoverage charge) 0 (serviceCharges this1)\<rparr>;
         this3 = this2\<lparr>patientResponsibility :=
                   foldl (\<lambda>sum charge. sum + sc_patientResponsibility charge) 0 (serviceCharges this2)\<rparr>;
         this4 = this3\<lparr>totalPaid :=
                   foldl (\<lambda>sum payment. sum + pr_amount payment) 0 (paymentRecords this3)\<rparr>;
         this5 = this4\<lparr>outstandingBalance := patientResponsibility this4 - totalPaid this4\<rparr>;
         this6 = this5\<lparr>allServicesPaid := (outstandingBalance this5 \<le> 0)\<rparr>
     in this6)"

definition addServiceCharge :: "visit \<Rightarrow> serviceData \<Rightarrow> objectId \<Rightarrow> visit" where
  "addServiceCharge this serviceData user =
    (let price = sd_price serviceData;
         quantity = (case sd_quantity serviceData of None \<Rightarrow> 1 | Some q \<Rightarrow> q);
         hasInsurance = (case sd_hasInsurance serviceData of None \<Rightarrow> False | Some h \<Rightarrow> h);
         insuranceCoveragePercentage =
           (case sd_insuranceCoveragePercentage serviceData of None \<Rightarrow> 0 | Some p \<Rightarrow> p);
         totalPrice = price * quantity;
         insuranceCoverage =
           (if hasInsurance then totalPrice * insuranceCoveragePercentage / 100 else 0);
         patientResponsibility = totalPrice - insuranceCoverage;
         pushed = this\<lparr>serviceCharges := serviceCharges this @
           [\<lparr>sc_serviceType = sd_serviceType serviceData,
             sc_serviceName = sd_serviceName serviceData,
             sc_serviceId = sd_serviceId serviceData,
             sc_price = price,
             sc_quantity = quantity,
             sc_totalPrice = totalPrice,
             sc_isCoveredByInsurance = hasInsurance,
             sc_insuranceCoverage = insuranceCoverage,
             sc_patientResponsibility = patientResponsibility,
             sc_paymentStatus = (if hasInsurance then ''insurance_claimed'' else ''pending''),
             sc_paidAmount = 0,
             sc_addedBy = user,
             sc_notes = sd_notes serviceData\<rparr>]\<rparr>
     in calculateFinancials pushed)"

definition recordPayment :: "visit \<Rightarrow> paymentData \<Rightarrow> objectId \<Rightarrow> visit" where
  "recordPayment this paymentData user =
    (let amount = pd_amount paymentData;
         paymentType = pd_paymentType paymentData;
         pushed = this\<lparr>paymentRecords := paymentRecords this @
           [\<lparr>pr_amount = amount,
             pr_paymentMethod = pd_paymentMethod paymentData,
             pr_paymentType = paymentType,
             pr_receiptNumber = pd_receiptNumber paymentData,
             pr_transactionId = pd_transactionId paymentData,
             pr_receivedBy = user,
             pr_notes = pd_notes paymentData\<rparr>]\<rparr>;
         marked = (if paymentType = ''consultation_fee''
                   then pushed\<lparr>consultationFeePaid := True, consultationFeeAmount := amount\<rparr>
                   else pushed)
     in calculateFinancials marked)"

definition getPaymentSummary :: "visit \<Rightarrow> paymentSummary" where
  "getPaymentSummary this =
    \<lparr>ps_visitId = visitId this,
     ps_totalCharges = totalCharges this,
     ps_insuranceCoverage = insuranceCoverage this,
     ps_patientResponsibility = patientResponsibility this,
     ps_totalPaid = totalPaid this,
     ps_outstandingBalance = outstandingBalance this,
     ps_consultationFeePaid = consultationFeePaid this,
     ps_allServicesPaid = allServicesPaid this,
     ps_serviceCharges = serviceCharges this,
     ps_paymentRecords = paymentRecords this\<rparr>"

section \<open>Collaborators: patients, lab tests, the document store\<close>

text \<open>
  The Patient and Service models are not part of the sources read here. Of a patient only
  \<^verbatim>\<open>_id\<close> and \<^verbatim>\<open>insurance.provider\<close> are used; of the service catalogue
  only the outcome of one \<^verbatim>\<open>Service.findOne\<close> call, which is a parameter of the
  handlers: it throws, returns null, or returns a service with its price.
\<close>

record insuranceInfo =
  provider :: "string option"

record patientDoc =
  p_id :: objectId
  insurance :: "insuranceInfo option"

datatype lookup = LookupThrows | LookupResult "number option"

text \<open>A LabTest document (src/models/LabTest.js): the schema has no path for notes or
  for the visit, so neither is stored, and \<^verbatim>\<open>testName\<close> is trimmed.\<close>

record labTest =
  lt_id :: objectId
  lt_testName :: "string option"
  lt_patient :: "objectId option"
  lt_orderedBy :: objectId
  lt_status :: string

record db =
  visits :: "visit list"
  patients :: "patientDoc list"
  labTests :: "labTest list"

text \<open>JavaScript truthiness of an optional string (\<^verbatim>\<open>undefined\<close> and the empty
  string are falsy), of an optional number (\<^verbatim>\<open>undefined\<close> and 0 are falsy) and of
  an optional boolean; \<^verbatim>\<open>s || d\<close> on strings.\<close>

text \<open>\<^verbatim>\<open>trim\<close> of a string, on the ASCII white space characters.\<close>

definition isSpace :: "char \<Rightarrow> bool" where
  "isSpace c = (c \<in> set [CHR '' '', CHR 0x09, CHR 0x0A, CHR 0x0B, CHR 0x0C, CHR 0x0D])"

definition trim :: "string \<Rightarrow> string" where
  "trim s = rev (dropWhile isSpace (rev (dropWhile isSpace s)))"

definition truthy :: "string option \<Rightarrow> bool" where
  "truthy s = (case s of None \<Rightarrow> False | Some x \<Rightarrow> x \<noteq> [])"

definition truthyNum :: "number option \<Rightarrow> bool" where
  "truthyNum a = (case a of None \<Rightarrow> False | Some x \<Rightarrow> x \<noteq> 0)"

definition truthyBool :: "bool option \<Rightarrow> bool" where
  "truthyBool b = (case b of None \<Rightarrow> False | Some x \<Rightarrow> x)"

definition orElse :: "string option \<Rightarrow> string option \<Rightarrow> string option" where
  "orElse a b = (if truthy a then a else b)"

text \<open>\<^verbatim>\<open>!!(patient.insurance?.provider)\<close>\<close>

definition hasInsuranceOf :: "patientDoc \<Rightarrow> bool" where
  "hasInsuranceOf p = (case insurance p of None \<Rightarrow> False | Some i \<Rightarrow> truthy (provider i))"

definition findById :: "db \<Rightarrow> objectId \<Rightarrow> visit option" where
  "findById d i = find (\<lambda>v. oid v = i) (visits d)"

definition findPatientById :: "db \<Rightarrow> objectId \<Rightarrow> patientDoc option" where
  "findPatientById d i = find (\<lambda>p. p_id p = i) (patients d)"

text \<open>\<^verbatim>\<open>Visit.findOne({ patient: patientId, isActive: true })\<close>\<close>

definition findActiveVisit :: "db \<Rightarrow> objectId \<Rightarrow> visit option" where
  "findActiveVisit d patientId = find (\<lambda>v. patient v = patientId \<and> isActive v) (visits d)"

subsection \<open>Schema validation and save\<close>

text \<open>
  \<^verbatim>\<open>save()\<close> validates the document against the schemas of Visit.js (the
  \<^verbatim>\<open>required\<close> and \<^verbatim>\<open>enum\<close> constraints; a required string must be
  non-empty) and rejects with a validation error, which every handler catches. Numbers
  and the ids set by the server are always present in this model.
\<close>

datatype error = ValidationError | DuplicateKey | TypeError

definition errorMessage :: "error \<Rightarrow> string" where
  "errorMessage e = (case e of ValidationError \<Rightarrow> ''Validation failed''
                      | DuplicateKey \<Rightarrow> ''E11000 duplicate key error''
                      | TypeError \<Rightarrow> ''Cannot read properties of undefined'')"

definition validLabOrder :: "labOrder \<Rightarrow> bool" where
  "validLabOrder l = (truthy (lo_testName l)
     \<and> lo_status l \<in> set [''Pending'', ''Completed'', ''Cancelled'']
     \<and> lo_paymentStatus l \<in> set [''pending'', ''paid'', ''insurance_claimed'', ''waived''])"

definition validServiceCharge :: "serviceCharge \<Rightarrow> bool" where
  "validServiceCharge c =
     (sc_serviceType c \<in> set [''consultation'', ''lab_test'', ''radiology'', ''prescription'', ''procedure'', ''other'']
      \<and> truthy (sc_serviceName c)
      \<and> sc_paymentStatus c \<in> set [''pending'', ''paid'', ''insurance_claimed'', ''partially_paid'', ''waived''])"

definition validPaymentRecord :: "paymentRecord \<Rightarrow> bool" where
  "validPaymentRecord r =
     (pr_paymentMethod r \<in> set [''cash'', ''card'', ''mobile_money'', ''insurance'', ''bank_transfer'']
      \<and> pr_paymentType r \<in> set [''consultation_fee'', ''service_payment'', ''deposit'', ''full_payment''])"

definition validateVisit :: "visit \<Rightarrow> bool" where
  "validateVisit v =
     (doctor v \<noteq> None
      \<and> status v \<in> set [''Pending Payment'', ''In Queue'', ''In-Progress'', ''completed'']
      \<and> (case visitType v of None \<Rightarrow> False
          | Some t \<Rightarrow> t \<in> set [''consultation'', ''emergency'', ''follow-up'', ''routine''])
      \<and> truthy (reason v)
      \<and> list_all validLabOrder (labOrders v)
      \<and> list_all validServiceCharge (serviceCharges v)
      \<and> list_all validPaymentRecord (paymentRecords v))"

text \<open>Saving a document that was loaded from the store replaces the stored copy.\<close>

definition saveVisit :: "db \<Rightarrow> visit \<Rightarrow> error + db" where
  "saveVisit d v =
     (if validateVisit v
      then Inr (d\<lparr>visits := map (\<lambda>x. if oid x = oid v then v else x) (visits d)\<rparr>)
      else Inl ValidationError)"

text \<open>The pre-save hook: \<^verbatim>\<open>V\<close>, the last two digits of the year, and the number of
  stored visits plus one, padded with zeros to five digits.\<close>

definition digit_char :: "nat \<Rightarrow> char" where
  "digit_char n = ''0123456789'' ! (n mod 10)"

fun toString :: "nat \<Rightarrow> string" where
  "toString n = (if n < 10 then [digit_char n] else toString (n div 10) @ [digit_char n])"

declare toString.simps [simp del]

definition padStart :: "nat \<Rightarrow> char \<Rightarrow> string \<Rightarrow> string" where
  "padStart n c s = replicate (n - length s) c @ s"

definition generateVisitId :: "nat \<Rightarrow> nat \<Rightarrow> string" where
  "generateVisitId fullYear count =
     (let year = (let y = toString fullYear in drop (length y - 2) y)
      in ''V'' @ year @ padStart 5 (CHR ''0'') (toString (count + 1)))"

text \<open>Saving a new document: validation, then the pre-save hook, then the insert, which
  the unique indexes on \<^verbatim>\<open>_id\<close> and \<^verbatim>\<open>visitId\<close> can reject.\<close>

definition saveNewVisit :: "db \<Rightarrow> visit \<Rightarrow> nat \<Rightarrow> error + (visit \<times> db)" where
  "saveNewVisit d v fullYear =
     (if \<not> validateVisit v then Inl ValidationError
      else
        let v' = (if \<not> truthy (visitId v)
                  then v\<lparr>visitId := Some (generateVisitId fullYear (length (visits d)))\<rparr>
                  else v)
        in if oid v' \<in> set (map oid (visits d))
              \<or> visitId v' \<in> set (map visitId (visits d))
           then Inl DuplicateKey
           else Inr (v', d\<lparr>visits := visits d @ [v']\<rparr>))"

section \<open>Requests and responses\<close>

text \<open>
  In the two gates the local variable \<^verbatim>\<open>visitId\<close> of the source is \<open>theId\<close>
  (\<open>visitId\<close> is the field of a visit).
  One record for the request: the path parameter, the body fields the handlers read,
  the id of the authenticated user (\<^verbatim>\<open>req.user.id\<close>), and what the middleware
  attaches. \<^verbatim>\<open>req.visit\<close> with its patient populated is the pair of
  \<open>req_visit\<close> and \<open>req_visitPatient\<close>. \<open>body_paymentConfirmed\<close> is the truthiness
  of the supplied value.
\<close>

record orderData =
  od_testName :: "string option"
  od_notes :: "string option"

record request =
  params_id :: "string option"
  user_id :: objectId
  body_visit :: "string option"
  body_visitId :: "string option"
  body_patientId :: "string option"
  body_doctorId :: "string option"
  body_reason :: "string option"
  body_status :: "string option"
  body_type :: "string option"
  body_testName :: "string option"
  body_notes :: "string option"
  body_medication :: "string option"
  body_dosage :: "string option"
  body_frequency :: "string option"
  body_duration :: "string option"
  body_orderData :: "orderData option"
  body_patient :: "string option"
  body_amount :: "number option"
  body_paymentMethod :: "string option"
  body_paymentType :: "string option"
  body_receiptNumber :: "string option"
  body_transactionId :: "string option"
  body_paymentConfirmed :: bool
  req_visit :: "visit option"
  req_visitPatient :: "patientDoc option"
  req_hasInsurance :: "bool option"
  req_patientId :: "objectId option"

record chargeInfo =
  ci_price :: number
  ci_hasInsurance :: "bool option"
  ci_patientResponsibility :: number

datatype payload = NoData | VisitData visit | LabOrderData labOrder | LabTestData labTest
  | SummaryData paymentSummary | PrescriptionData prescription

record response =
  code :: nat
  res_status :: string
  message :: "string option"
  requiresPayment :: "bool option"
  res_visitId :: "string option"
  data :: payload
  res_chargeInfo :: "chargeInfo option"

datatype outcome = Respond response | Next request

text \<open>\<^verbatim>\<open>res.status(c).json({ status: 'error', message: m })\<close>\<close>

definition errorResponse :: "nat \<Rightarrow> string \<Rightarrow> response" where
  "errorResponse c m =
     \<lparr>code = c, res_status = ''error'', message = Some m, requiresPayment = None,
      res_visitId = None, data = NoData, res_chargeInfo = None\<rparr>"

definition successResponse :: "nat \<Rightarrow> string option \<Rightarrow> payload \<Rightarrow> chargeInfo option \<Rightarrow> response" where
  "successResponse c m p ci =
     \<lparr>code = c, res_status = ''success'', message = m, requiresPayment = None,
      res_visitId = None, data = p, res_chargeInfo = ci\<rparr>"

section \<open>The eligibility gate (src/middleware/paymentEligibility.js)\<close>

definition checkPaymentEligibility :: "db \<Rightarrow> request \<Rightarrow> outcome" where
  "checkPaymentEligibility d req =
    (let theId = (if truthy (body_visit req) then body_visit req
                    else if truthy (body_visitId req) then body_visitId req
                    else if truthy (params_id req) then params_id req
                    else None)
     in case theId of
          None \<Rightarrow> Respond (errorResponse 400 ''Visit ID is required'')
        | Some i \<Rightarrow>
           (case findById d i of
              None \<Rightarrow> Respond (errorResponse 404 ''Visit not found'')
            | Some visit \<Rightarrow>
               (case findPatientById d (patient visit) of
                  None \<Rightarrow> Respond (errorResponse 500 ''Error checking payment eligibility'')
                | Some p \<Rightarrow>
                   (let hasInsurance = hasInsuranceOf p
                    in if \<not> hasInsurance
                       then (if status visit = ''Pending Payment''
                             then Respond
                               \<lparr>code = 403, res_status = ''error'',
                                message = Some ''Payment required before ordering services. Please complete payment at the reception.'',
                                requiresPayment = Some True,
                                res_visitId = visitId visit,
                                data = NoData, res_chargeInfo = None\<rparr>
                             else Next (req\<lparr>req_visit := Some visit, req_visitPatient := Some p,
                                             req_hasInsurance := Some hasInsurance,
                                             req_patientId := Some (p_id p)\<rparr>))
                       else Next (req\<lparr>req_visit := Some visit, req_visitPatient := Some p,
                                       req_hasInsurance := Some hasInsurance,
                                       req_patientId := Some (p_id p)\<rparr>)))))"

definition checkVisitActive :: "db \<Rightarrow> request \<Rightarrow> outcome" where
  "checkVisitActive d req =
    (let theId = orElse (params_id req) (orElse (body_visit req) (body_visitId req))
     in if \<not> truthy theId then Respond (errorResponse 400 ''Visit ID is required'')
        else case theId of
          None \<Rightarrow> Respond (errorResponse 400 ''Visit ID is required'')
        | Some i \<Rightarrow>
           (case findById d i of
              None \<Rightarrow> Respond (errorResponse 404 ''Visit not found'')
            | Some visit \<Rightarrow>
               if \<not> isActive visit
               then Respond (errorResponse 400 ''Cannot modify an inactive visit'')
               else Next (req\<lparr>req_visit := Some visit, req_visitPatient := None\<rparr>)))"

section \<open>Route handlers (routes of /api/visits, src/controllers/labTestController.js)\<close>

text \<open>
  Each handler takes the store and the request and returns the response with the store it
  leaves. A fresh \<^verbatim>\<open>_id\<close> and the current year come from the environment and are
  parameters. Authorisation by role is outside the ledger and is not modelled.
\<close>

text \<open>POST /api/visits\<close>

definition createVisit :: "db \<Rightarrow> request \<Rightarrow> objectId \<Rightarrow> nat \<Rightarrow> response \<times> db" where
  "createVisit d req newId fullYear =
    (case body_patientId req of
       None \<Rightarrow> (errorResponse 404 ''Patient not found'', d)
     | Some patientId \<Rightarrow>
        (case findActiveVisit d patientId of
           Some activeVisit \<Rightarrow>
             (errorResponse 400
                (''Patient already has an active visit (Visit ID: ''
                  @ (case orElse (visitId activeVisit) (Some (oid activeVisit)) of
                       None \<Rightarrow> [] | Some i \<Rightarrow> i)
                  @ ''). Please end the current visit before starting a new one.''), d)
         | None \<Rightarrow>
            (case findPatientById d patientId of
               None \<Rightarrow> (errorResponse 404 ''Patient not found'', d)
             | Some p \<Rightarrow>
                (let hasInsurance = hasInsuranceOf p;
                     visitStatus0 = (case orElse (body_status req) (Some ''Pending Payment'') of
                                       None \<Rightarrow> [] | Some s \<Rightarrow> s);
                     visitStatus = (if hasInsurance then ''In Queue'' else visitStatus0);
                     newVisit =
                       \<lparr>oid = newId, visitId = None, patient = patientId,
                        doctor = body_doctorId req, status = visitStatus,
                        visitType = body_type req, reason = body_reason req,
                        startedBy = user_id req, labOrders = [], prescriptions = None,
                        serviceCharges = [],
                        paymentRecords = [], totalCharges = 0, insuranceCoverage = 0,
                        patientResponsibility = 0, totalPaid = 0, outstandingBalance = 0,
                        consultationFeePaid = False, consultationFeeAmount = 0,
                        allServicesPaid = False, isActive = True\<rparr>
                 in case saveNewVisit d newVisit fullYear of
                      Inl e \<Rightarrow> (errorResponse 400 (errorMessage e), d)
                    | Inr (visit, d') \<Rightarrow>
                        (successResponse 201
                           (Some (''Visit created successfully''
                              @ (if hasInsurance
                                 then '' and moved to In Queue (insurance coverage)''
                                 else ''. Payment is required before services can be ordered.'')))
                           (VisitData visit) None, d')))))"

text \<open>POST /api/visits/:id/lab-orders: the handler proper, then the route with its two
  gates in front.\<close>

definition labOrdersHandler :: "db \<Rightarrow> request \<Rightarrow> objectId \<Rightarrow> lookup \<Rightarrow> response \<times> db" where
  "labOrdersHandler d req newId service =
    (case req_visit req of
       None \<Rightarrow> (errorResponse 400 (errorMessage TypeError), d)
     | Some visit \<Rightarrow>
        (let hasInsurance = req_hasInsurance req;
             testName = body_testName req;
             notes = body_notes req;
             servicePrice = (case service of LookupThrows \<Rightarrow> 0
                               | LookupResult None \<Rightarrow> 0
                               | LookupResult (Some price) \<Rightarrow> price);
             newLabOrder =
               \<lparr>lo_id = newId, lo_testName = testName, lo_patient = patient visit,
                lo_orderedBy = user_id req, lo_status = ''Pending'', lo_notes = notes,
                lo_price = servicePrice,
                lo_paymentStatus =
                  (if truthyBool hasInsurance then ''insurance_claimed'' else ''pending'')\<rparr>;
             visit1 = visit\<lparr>labOrders := labOrders visit @ [newLabOrder]\<rparr>;
             visit2 =
               (if servicePrice > 0
                then (let insuranceCoveragePercentage = (if truthyBool hasInsurance then 80 else 0)
                      in addServiceCharge visit1
                           \<lparr>sd_serviceType = ''lab_test'', sd_serviceName = testName,
                            sd_serviceId = Some newId, sd_price = servicePrice,
                            sd_quantity = Some 1, sd_hasInsurance = hasInsurance,
                            sd_insuranceCoveragePercentage = Some insuranceCoveragePercentage,
                            sd_notes = notes\<rparr>
                           (user_id req))
                else visit1)
         in case saveVisit d visit2 of
              Inl e \<Rightarrow> (errorResponse 400 (errorMessage e), d)
            | Inr d' \<Rightarrow>
                (successResponse 201 None (LabOrderData newLabOrder)
                   (if servicePrice > 0
                    then Some \<lparr>ci_price = servicePrice, ci_hasInsurance = hasInsurance,
                               ci_patientResponsibility =
                                 (if truthyBool hasInsurance then servicePrice * 0.2
                                  else servicePrice)\<rparr>
                    else None), d')))"

definition postLabOrders :: "db \<Rightarrow> request \<Rightarrow> objectId \<Rightarrow> lookup \<Rightarrow> response \<times> db" where
  "postLabOrders d req newId service =
    (case checkPaymentEligibility d req of
       Respond r \<Rightarrow> (r, d)
     | Next req1 \<Rightarrow>
        (case checkVisitActive d req1 of
           Respond r \<Rightarrow> (r, d)
         | Next req2 \<Rightarrow> labOrdersHandler d req2 newId service))"

text \<open>POST /api/visits/:id/prescriptions. The handler calls
  \<^verbatim>\<open>visit.prescriptions.push(newPrescription)\<close>. The value of that path is
  \<^verbatim>\<open>undefined\<close> or an ObjectId, and on either the call throws a TypeError, which the
  handler catches with status 400; the statements after the call are the last branch.
  A template literal prints an absent value as \<^verbatim>\<open>undefined\<close>.\<close>

definition pushOnReference :: "objectId option \<Rightarrow> 'a \<Rightarrow> error + 'a list" where
  "pushOnReference field x = (case field of None \<Rightarrow> Inl TypeError | Some r \<Rightarrow> Inl TypeError)"

definition template :: "string option \<Rightarrow> string" where
  "template s = (case s of None \<Rightarrow> ''undefined'' | Some x \<Rightarrow> x)"

definition prescriptionsHandler :: "db \<Rightarrow> request \<Rightarrow> objectId \<Rightarrow> lookup \<Rightarrow> response \<times> db" where
  "prescriptionsHandler d req newId service =
    (case req_visit req of
       None \<Rightarrow> (errorResponse 400 (errorMessage TypeError), d)
     | Some visit \<Rightarrow>
        (let hasInsurance = req_hasInsurance req;
             medication = body_medication req;
             dosage = body_dosage req;
             frequency = body_frequency req;
             duration = body_duration req;
             medicationPrice = (case service of LookupThrows \<Rightarrow> 0
                                  | LookupResult None \<Rightarrow> 0
                                  | LookupResult (Some price) \<Rightarrow> price);
             newPrescription =
               \<lparr>rx_medication = medication, rx_dosage = dosage, rx_frequency = frequency,
                rx_duration = duration, rx_patient = patient visit,
                rx_prescribedBy = user_id req, rx_price = medicationPrice,
                rx_paymentStatus =
                  (if truthyBool hasInsurance then ''insurance_claimed'' else ''pending'')\<rparr>
         in case pushOnReference (prescriptions visit) newPrescription of
              Inl e \<Rightarrow> (errorResponse 400 (errorMessage e), d)
            | Inr pushed \<Rightarrow>
               (let visit2 =
                      (if medicationPrice > 0
                       then (let insuranceCoveragePercentage =
                                   (if truthyBool hasInsurance then 70 else 0)
                             in addServiceCharge visit
                                  \<lparr>sd_serviceType = ''prescription'', sd_serviceName = medication,
                                   sd_serviceId = Some newId, sd_price = medicationPrice,
                                   sd_quantity = Some 1, sd_hasInsurance = hasInsurance,
                                   sd_insuranceCoveragePercentage = Some insuranceCoveragePercentage,
                                   sd_notes = Some (template dosage @ '', '' @ template frequency
                                     @ (if truthy duration then '', '' @ template duration else []))\<rparr>
                                  (user_id req))
                       else visit)
                in case saveVisit d visit2 of
                     Inl e \<Rightarrow> (errorResponse 400 (errorMessage e), d)
                   | Inr d' \<Rightarrow>
                       (successResponse 201 None (PrescriptionData newPrescription)
                          (if medicationPrice > 0
                           then Some \<lparr>ci_price = medicationPrice, ci_hasInsurance = hasInsurance,
                                      ci_patientResponsibility =
                                        (if truthyBool hasInsurance then medicationPrice * 0.3
                                         else medicationPrice)\<rparr>
                           else None), d'))))"

definition postPrescriptions :: "db \<Rightarrow> request \<Rightarrow> objectId \<Rightarrow> lookup \<Rightarrow> response \<times> db" where
  "postPrescriptions d req newId service =
    (case checkPaymentEligibility d req of
       Respond r \<Rightarrow> (r, d)
     | Next req1 \<Rightarrow>
        (case checkVisitActive d req1 of
           Respond r \<Rightarrow> (r, d)
         | Next req2 \<Rightarrow> prescriptionsHandler d req2 newId service))"

text \<open>\<^verbatim>\<open>createLabTest\<close> (POST /api/lab-tests), run behind the eligibility gate. Reading
  \<^verbatim>\<open>orderData.testName\<close> of an absent \<^verbatim>\<open>orderData\<close> throws; the LabTest
  schema requires \<^verbatim>\<open>patient\<close>, trims \<^verbatim>\<open>testName\<close> and drops the notes and
  the visit id passed to \<^verbatim>\<open>LabTest.create\<close>. When saving the visit fails the lab
  test has already been created.\<close>

definition createLabTest :: "db \<Rightarrow> request \<Rightarrow> objectId \<Rightarrow> lookup \<Rightarrow> response \<times> db" where
  "createLabTest d req newId service =
    (case body_orderData req of
       None \<Rightarrow> (errorResponse 400 (errorMessage TypeError), d)
     | Some orderData \<Rightarrow>
        (let visit = req_visit req;
             hasInsurance = req_hasInsurance req;
             servicePrice = (case service of LookupThrows \<Rightarrow> 0
                               | LookupResult None \<Rightarrow> 0
                               | LookupResult (Some price) \<Rightarrow> price);
             labTest = \<lparr>lt_id = newId, lt_testName = map_option trim (od_testName orderData),
                        lt_patient = body_patient req,
                        lt_orderedBy = user_id req, lt_status = ''Pending''\<rparr>
         in if \<not> truthy (body_patient req)
            then (errorResponse 400 (errorMessage ValidationError), d)
            else
              (let d1 = d\<lparr>labTests := labTests d @ [labTest]\<rparr>;
                   res = successResponse 201 None (LabTestData labTest)
                     (if servicePrice > 0
                      then Some \<lparr>ci_price = servicePrice, ci_hasInsurance = hasInsurance,
                                 ci_patientResponsibility =
                                   (if truthyBool hasInsurance then servicePrice * 0.2
                                    else servicePrice)\<rparr>
                      else None)
               in case visit of
                    None \<Rightarrow> (res, d1)
                  | Some v \<Rightarrow>
                     if servicePrice > 0
                     then (let insuranceCoveragePercentage =
                                 (if truthyBool hasInsurance then 80 else 0);
                               v' = addServiceCharge v
                                 \<lparr>sd_serviceType = ''lab_test'',
                                  sd_serviceName = od_testName orderData,
                                  sd_serviceId = Some newId, sd_price = servicePrice,
                                  sd_quantity = Some 1, sd_hasInsurance = hasInsurance,
                                  sd_insuranceCoveragePercentage = Some insuranceCoveragePercentage,
                                  sd_notes = od_notes orderData\<rparr>
                                 (user_id req)
                           in case saveVisit d1 v' of
                                Inl e \<Rightarrow> (errorResponse 400 (errorMessage e), d1)
                              | Inr d2 \<Rightarrow> (res, d2))
                     else (res, d1))))"

text \<open>POST /api/visits/:id/payments\<close>

definition postPayments :: "db \<Rightarrow> request \<Rightarrow> response \<times> db" where
  "postPayments d req =
    (case (case params_id req of None \<Rightarrow> None | Some i \<Rightarrow> findById d i) of
       None \<Rightarrow> (errorResponse 404 ''Visit not found'', d)
     | Some visit \<Rightarrow>
        if \<not> truthyNum (body_amount req) \<or> \<not> truthy (body_paymentMethod req)
           \<or> \<not> truthy (body_paymentType req)
        then (errorResponse 400 ''Amount, payment method, and payment type are required'', d)
        else
          (case (body_amount req, body_paymentMethod req, body_paymentType req) of
             (Some amount, Some paymentMethod, Some paymentType) \<Rightarrow>
               (let visit' = recordPayment visit
                      \<lparr>pd_amount = amount, pd_paymentMethod = paymentMethod,
                       pd_paymentType = paymentType,
                       pd_receiptNumber = body_receiptNumber req,
                       pd_transactionId = body_transactionId req,
                       pd_notes = body_notes req\<rparr>
                      (user_id req)
                in case saveVisit d visit' of
                     Inl e \<Rightarrow> (errorResponse 400 (errorMessage e), d)
                   | Inr d' \<Rightarrow>
                       (successResponse 201 (Some ''Payment recorded successfully'')
                          (SummaryData (getPaymentSummary visit')) None, d'))
           | _ \<Rightarrow> (errorResponse 400 ''Amount, payment method, and payment type are required'', d)))"

text \<open>PATCH /api/visits/:id/payment-status. A failing save is caught with status 500.\<close>

definition patchPaymentStatus :: "db \<Rightarrow> request \<Rightarrow> response \<times> db" where
  "patchPaymentStatus d req =
    (let paymentConfirmed = body_paymentConfirmed req
     in case (case params_id req of None \<Rightarrow> None | Some i \<Rightarrow> findById d i) of
          None \<Rightarrow> (errorResponse 404 ''Visit not found'', d)
        | Some visit \<Rightarrow>
           if status visit = ''Pending Payment'' \<and> paymentConfirmed
           then (let visit' = visit\<lparr>status := ''In Queue'', consultationFeePaid := True\<rparr>
                 in case saveVisit d visit' of
                      Inl e \<Rightarrow> (errorResponse 500 ''Server Error'', d)
                    | Inr d' \<Rightarrow>
                        (successResponse 200 (Some ''Payment confirmed. Visit moved to queue.'')
                           (VisitData visit') None, d'))
           else (errorResponse 400
                   ''Visit is not in Pending Payment status or payment already confirmed'', d))"

text \<open>PATCH /api/visits/:id/end-visit. When the visit is not found the 404 response has
  been sent before the handler fails on the missing document.\<close>

definition endVisitRoute :: "db \<Rightarrow> request \<Rightarrow> response \<times> db" where
  "endVisitRoute d req =
    (case (case params_id req of None \<Rightarrow> None | Some i \<Rightarrow> findById d i) of
       None \<Rightarrow> (errorResponse 404 ''Visit not found'', d)
     | Some visit \<Rightarrow>
        (let visit' = visit\<lparr>isActive := \<not> isActive visit\<rparr>
         in case saveVisit d visit' of
              Inl e \<Rightarrow> (errorResponse 500 ''Server Error'', d)
            | Inr d' \<Rightarrow>
                (successResponse 200
                   (Some (''Visit '' @ (if isActive visit' then ''true'' else ''false'')
                            @ '' ended successfully''))
                   NoData None, d')))"

section \<open>Example data\<close>

text \<open>A visit, a patient without and one with insurance, a store and an empty request,
  used to instantiate the theorems below.\<close>

definition visit0 :: visit where
  "visit0 = \<lparr>oid = ''a1'', visitId = Some ''V2500001'', patient = ''p1'', doctor = Some ''d1'',
     status = ''In Queue'', visitType = Some ''consultation'', reason = Some ''checkup'',
     startedBy = ''u1'', labOrders = [], prescriptions = None, serviceCharges = [],
     paymentRecords = [],
     totalCharges = 0, insuranceCoverage = 0, patientResponsibility = 0, totalPaid = 0,
     outstandingBalance = 0, consultationFeePaid = False, consultationFeeAmount = 0,
     allServicesPaid = False, isActive = True\<rparr>"

definition charge0 :: serviceData where
  "charge0 = \<lparr>sd_serviceType = ''prescription'', sd_serviceName = Some ''Amoxicillin'',
     sd_serviceId = None, sd_price = 100, sd_quantity = Some 1, sd_hasInsurance = Some True,
     sd_insuranceCoveragePercentage = Some 70, sd_notes = None\<rparr>"

definition payment0 :: paymentData where
  "payment0 = \<lparr>pd_amount = 50, pd_paymentMethod = ''cash'', pd_paymentType = ''service_payment'',
     pd_receiptNumber = None, pd_transactionId = None, pd_notes = None\<rparr>"

definition patient1 :: patientDoc where
  "patient1 = \<lparr>p_id = ''p1'', insurance = None\<rparr>"

definition patient2 :: patientDoc where
  "patient2 = \<lparr>p_id = ''p2'', insurance = Some \<lparr>provider = Some ''NHIF''\<rparr>\<rparr>"

definition visitPending :: visit where
  "visitPending = visit0\<lparr>status := ''Pending Payment''\<rparr>"

definition db0 :: db where
  "db0 = \<lparr>visits = [visitPending], patients = [patient1, patient2], labTests = []\<rparr>"

definition request0 :: request where
  "request0 = \<lparr>params_id = None, user_id = ''u1'', body_visit = None, body_visitId = None,
     body_patientId = None, body_doctorId = None, body_reason = None, body_status = None,
     body_type = None, body_testName = None, body_notes = None, body_medication = None,
     body_dosage = None, body_frequency = None, body_duration = None, body_orderData = None,
     body_patient = None, body_amount = None, body_paymentMethod = None,
     body_paymentType = None, body_receiptNumber = None, body_transactionId = None,
     body_paymentConfirmed = False, req_visit = None, req_visitPatient = None,
     req_hasInsurance = None, req_patientId = None\<rparr>"

definition db1 :: db where
  "db1 = \<lparr>visits = [visit0], patients = [patient1, patient2], labTests = []\<rparr>"

definition db2 :: db where
  "db2 = \<lparr>visits = [], patients = [patient1, patient2], labTests = []\<rparr>"

definition requestPay :: request where
  "requestPay = request0\<lparr>params_id := Some ''a1'', body_amount := Some 30,
     body_paymentMethod := Some ''cash'', body_paymentType := Some ''full_payment''\<rparr>"

definition requestLab :: request where
  "requestLab = request0\<lparr>params_id := Some ''a1'', body_testName := Some ''CBC''\<rparr>"

definition requestTest :: request where
  "requestTest = request0\<lparr>body_visit := Some ''a1'', body_patient := Some ''p1'',
     body_orderData := Some \<lparr>od_testName = Some ''CBC'', od_notes = None\<rparr>,
     req_visit := Some visit0, req_hasInsurance := Some False\<rparr>"

definition requestRx :: request where
  "requestRx = request0\<lparr>params_id := Some ''a1'', body_medication := Some ''Amoxicillin'',
     body_dosage := Some ''500mg'', body_frequency := Some ''twice daily''\<rparr>"

definition requestCreate :: request where
  "requestCreate = request0\<lparr>body_patientId := Some ''p1'', body_doctorId := Some ''d1'',
     body_reason := Some ''checkup'', body_type := Some ''consultation''\<rparr>"

section \<open>Properties of the ledger methods\<close>

lemmas ex_defs = db0_def db1_def db2_def request0_def requestPay_def requestLab_def
  requestRx_def requestCreate_def
  visit0_def visitPending_def patient1_def patient2_def charge0_def payment0_def

lemmas model_defs = findById_def findPatientById_def findActiveVisit_def hasInsuranceOf_def
  truthy_def truthyNum_def truthyBool_def orElse_def saveVisit_def saveNewVisit_def
  validateVisit_def validLabOrder_def validServiceCharge_def validPaymentRecord_def
  errorResponse_def successResponse_def errorMessage_def Let_def
  generateVisitId_def padStart_def digit_char_def toString.simps

lemma foldl_plus_sum_list:
  "foldl (\<lambda>sum x. sum + f x) a xs = a + sum_list (map f xs)" for a :: real
  by (induction xs arbitrary: a) simp_all

lemma calculateFinancials_fields:
  "serviceCharges (calculateFinancials v) = serviceCharges v"
  "paymentRecords (calculateFinancials v) = paymentRecords v"
  "totalCharges (calculateFinancials v) = sum_list (map sc_totalPrice (serviceCharges v))"
  "insuranceCoverage (calculateFinancials v) = sum_list (map sc_insuranceCoverage (serviceCharges v))"
  "patientResponsibility (calculateFinancials v) =
     sum_list (map sc_patientResponsibility (serviceCharges v))"
  "totalPaid (calculateFinancials v) = sum_list (map pr_amount (paymentRecords v))"
  "outstandingBalance (calculateFinancials v) =
     sum_list (map sc_patientResponsibility (serviceCharges v))
       - sum_list (map pr_amount (paymentRecords v))"
  "allServicesPaid (calculateFinancials v) =
     (sum_list (map sc_patientResponsibility (serviceCharges v))
       - sum_list (map pr_amount (paymentRecords v)) \<le> 0)"
  by (simp_all add: calculateFinancials_def Let_def foldl_plus_sum_list)

lemma calculateFinancials_invariant:
  "totalCharges (calculateFinancials v) = sum_list (map sc_totalPrice (serviceCharges (calculateFinancials v)))
   \<and> insuranceCoverage (calculateFinancials v) = sum_list (map sc_insuranceCoverage (serviceCharges (calculateFinancials v)))
   \<and> patientResponsibility (calculateFinancials v) = sum_list (map sc_patientResponsibility (serviceCharges (calculateFinancials v)))
   \<and> totalPaid (calculateFinancials v) = sum_list (map pr_amount (paymentRecords (calculateFinancials v)))
   \<and> outstandingBalance (calculateFinancials v) = patientResponsibility (calculateFinancials v) - totalPaid (calculateFinancials v)
   \<and> allServicesPaid (calculateFinancials v) = (outstandingBalance (calculateFinancials v) \<le> 0)"
  by (simp add: calculateFinancials_fields)

text \<open>
  C1. After \<^verbatim>\<open>addServiceCharge\<close> and after \<^verbatim>\<open>recordPayment\<close> the derived
  fields of the visit are the sums over its two sequences: \<open>totalCharges\<close>,
  \<open>insuranceCoverage\<close> and \<open>patientResponsibility\<close> over the service charges,
  \<open>totalPaid\<close> over the payment records; \<open>outstandingBalance\<close> is the signed
  difference of patient responsibility and total paid, and \<open>allServicesPaid\<close> holds
  exactly when that balance is at most 0. The instance below overpays: the balance is -20.
\<close>

theorem aggregates_after_append:
  assumes "v' = addServiceCharge v sd u \<or> v' = recordPayment v pd u"
  shows "totalCharges v' = sum_list (map sc_totalPrice (serviceCharges v'))
       \<and> insuranceCoverage v' = sum_list (map sc_insuranceCoverage (serviceCharges v'))
       \<and> patientResponsibility v' = sum_list (map sc_patientResponsibility (serviceCharges v'))
       \<and> totalPaid v' = sum_list (map pr_amount (paymentRecords v'))
       \<and> outstandingBalance v' = patientResponsibility v' - totalPaid v'
       \<and> allServicesPaid v' = (outstandingBalance v' \<le> 0)"
proof -
  from assms obtain w where "v' = calculateFinancials w"
    unfolding addServiceCharge_def recordPayment_def Let_def by blast
  then show ?thesis using calculateFinancials_invariant [of w] by simp
qed

theorem aggregates_after_append_witness:
  "outstandingBalance (recordPayment (addServiceCharge visit0 charge0 ''u1'') payment0 ''u1'') = - 20
   \<and> allServicesPaid (recordPayment (addServiceCharge visit0 charge0 ''u1'') payment0 ''u1'')
   \<and> totalCharges (recordPayment (addServiceCharge visit0 charge0 ''u1'') payment0 ''u1'') = 100
   \<and> patientResponsibility (recordPayment (addServiceCharge visit0 charge0 ''u1'') payment0 ''u1'')
       - totalPaid (recordPayment (addServiceCharge visit0 charge0 ''u1'') payment0 ''u1'') = - 20"
  using aggregates_after_append [of "recordPayment (addServiceCharge visit0 charge0 ''u1'') payment0 ''u1''"
      "addServiceCharge visit0 charge0 ''u1''" charge0 "''u1''" payment0]
  by (simp add: recordPayment_def addServiceCharge_def calculateFinancials_def visit0_def charge0_def payment0_def)

text \<open>
  C2. \<^verbatim>\<open>addServiceCharge\<close> with unit price \<open>sd_price sd\<close>, quantity \<open>q\<close>,
  insurance flag \<open>h\<close> and percentage \<open>pct\<close> appends one charge \<open>c\<close> whose total price
  is price times quantity, whose insurance coverage is total price times \<open>pct\<close> over 100
  when \<open>h\<close> and 0 otherwise, whose patient responsibility is the difference, and whose
  payment status is \<^verbatim>\<open>insurance_claimed\<close> when \<open>h\<close> and \<^verbatim>\<open>pending\<close>
  otherwise.
\<close>

theorem appended_charge:
  assumes "sd_quantity sd = Some q" and "sd_hasInsurance sd = Some h"
    and "sd_insuranceCoveragePercentage sd = Some pct"
    and "c = last (serviceCharges (addServiceCharge v sd u))"
  shows "serviceCharges (addServiceCharge v sd u) = serviceCharges v @ [c]
           \<and> sc_price c = sd_price sd \<and> sc_quantity c = q
           \<and> sc_totalPrice c = sd_price sd * q
           \<and> sc_insuranceCoverage c = (if h then sc_totalPrice c * pct / 100 else 0)
           \<and> sc_patientResponsibility c = sc_totalPrice c - sc_insuranceCoverage c
           \<and> sc_paymentStatus c = (if h then ''insurance_claimed'' else ''pending'')"
  using assms by (simp add: addServiceCharge_def Let_def calculateFinancials_fields)

theorem appended_charge_witness:
  "length (serviceCharges (addServiceCharge visit0 charge0 ''u1'')) = 1
   \<and> sc_totalPrice (last (serviceCharges (addServiceCharge visit0 charge0 ''u1''))) = 100
   \<and> sc_insuranceCoverage (last (serviceCharges (addServiceCharge visit0 charge0 ''u1''))) = 70
   \<and> sc_patientResponsibility (last (serviceCharges (addServiceCharge visit0 charge0 ''u1''))) = 30
   \<and> sc_paymentStatus (last (serviceCharges (addServiceCharge visit0 charge0 ''u1'')))
       = ''insurance_claimed''"
  using appended_charge [of charge0 1 True 70 "last (serviceCharges (addServiceCharge visit0 charge0 ''u1''))"
      visit0 "''u1''"]
  by (simp add: addServiceCharge_def calculateFinancials_def charge0_def visit0_def)

lemma calculateFinancials_idem:
  "calculateFinancials (calculateFinancials v) = calculateFinancials v"
  by (simp add: calculateFinancials_def Let_def)

text \<open>
  C4. \<^verbatim>\<open>calculateFinancials\<close> is idempotent: \<open>n \<ge> 1\<close> calls in a row give what one
  call gives, and one call changes nothing but the six derived fields.
\<close>

theorem recompute_idempotent:
  assumes "1 \<le> n"
  shows "(calculateFinancials ^^ n) v = calculateFinancials v
       \<and> calculateFinancials v =
           v\<lparr>totalCharges := totalCharges (calculateFinancials v),
             insuranceCoverage := insuranceCoverage (calculateFinancials v),
             patientResponsibility := patientResponsibility (calculateFinancials v),
             totalPaid := totalPaid (calculateFinancials v),
             outstandingBalance := outstandingBalance (calculateFinancials v),
             allServicesPaid := allServicesPaid (calculateFinancials v)\<rparr>"
proof
  from assms show "(calculateFinancials ^^ n) v = calculateFinancials v"
  proof (induction n rule: nat_induct_at_least)
    case base
    show ?case by simp
  next
    case (Suc k)
    then show ?case by (simp add: calculateFinancials_idem)
  qed
next
  show "calculateFinancials v =
           v\<lparr>totalCharges := totalCharges (calculateFinancials v),
             insuranceCoverage := insuranceCoverage (calculateFinancials v),
             patientResponsibility := patientResponsibility (calculateFinancials v),
             totalPaid := totalPaid (calculateFinancials v),
             outstandingBalance := outstandingBalance (calculateFinancials v),
             allServicesPaid := allServicesPaid (calculateFinancials v)\<rparr>"
    by (simp add: calculateFinancials_def Let_def)
qed

theorem recompute_idempotent_witness:
  "(1::nat) \<le> 3 \<and> (calculateFinancials ^^ 3) (addServiceCharge visit0 charge0 ''u1'')
     = calculateFinancials (addServiceCharge visit0 charge0 ''u1'')
   \<and> totalCharges ((calculateFinancials ^^ 3) (addServiceCharge visit0 charge0 ''u1'')) = 100"
  using recompute_idempotent [of 3 "addServiceCharge visit0 charge0 ''u1''"]
  by (simp add: calculateFinancials_fields addServiceCharge_def charge0_def visit0_def)

text \<open>
  C10. \<^verbatim>\<open>recordPayment\<close> appends exactly one payment record, leaves the service
  charges as they are, and besides the six derived fields writes only
  \<open>consultationFeePaid\<close> and \<open>consultationFeeAmount\<close>, and these only for payment type
  \<^verbatim>\<open>consultation_fee\<close>. \<^verbatim>\<open>addServiceCharge\<close> appends exactly one service
  charge and leaves the payment records, the status, \<open>isActive\<close> and every field other
  than the six derived ones as they are.
\<close>

theorem ledger_frame:
  "paymentRecords (recordPayment v pd u)
      = paymentRecords v @ [last (paymentRecords (recordPayment v pd u))]
   \<and> serviceCharges (recordPayment v pd u) = serviceCharges v
   \<and> recordPayment v pd u =
       v\<lparr>paymentRecords := paymentRecords (recordPayment v pd u),
         consultationFeePaid :=
           (if pd_paymentType pd = ''consultation_fee'' then True else consultationFeePaid v),
         consultationFeeAmount :=
           (if pd_paymentType pd = ''consultation_fee'' then pd_amount pd
            else consultationFeeAmount v),
         totalCharges := totalCharges (recordPayment v pd u),
         insuranceCoverage := insuranceCoverage (recordPayment v pd u),
         patientResponsibility := patientResponsibility (recordPayment v pd u),
         totalPaid := totalPaid (recordPayment v pd u),
         outstandingBalance := outstandingBalance (recordPayment v pd u),
         allServicesPaid := allServicesPaid (recordPayment v pd u)\<rparr>
   \<and> (pd_paymentType pd \<noteq> ''consultation_fee'' \<longrightarrow>
        consultationFeePaid (recordPayment v pd u) = consultationFeePaid v
        \<and> consultationFeeAmount (recordPayment v pd u) = consultationFeeAmount v)
   \<and> serviceCharges (addServiceCharge v sd u)
      = serviceCharges v @ [last (serviceCharges (addServiceCharge v sd u))]
   \<and> paymentRecords (addServiceCharge v sd u) = paymentRecords v
   \<and> status (addServiceCharge v sd u) = status v
   \<and> isActive (addServiceCharge v sd u) = isActive v
   \<and> addServiceCharge v sd u =
       v\<lparr>serviceCharges := serviceCharges (addServiceCharge v sd u),
         totalCharges := totalCharges (addServiceCharge v sd u),
         insuranceCoverage := insuranceCoverage (addServiceCharge v sd u),
         patientResponsibility := patientResponsibility (addServiceCharge v sd u),
         totalPaid := totalPaid (addServiceCharge v sd u),
         outstandingBalance := outstandingBalance (addServiceCharge v sd u),
         allServicesPaid := allServicesPaid (addServiceCharge v sd u)\<rparr>"
  by (simp add: recordPayment_def addServiceCharge_def calculateFinancials_def Let_def)

theorem ledger_frame_witness:
  "pd_paymentType payment0 \<noteq> ''consultation_fee''
   \<and> consultationFeePaid (recordPayment visit0 payment0 ''u1'') = False
   \<and> consultationFeeAmount (recordPayment visit0 payment0 ''u1'') = 0
   \<and> length (paymentRecords (recordPayment visit0 payment0 ''u1'')) = 1
   \<and> serviceCharges (recordPayment visit0 payment0 ''u1'') = []
   \<and> length (serviceCharges (addServiceCharge visit0 charge0 ''u1'')) = 1
   \<and> paymentRecords (addServiceCharge visit0 charge0 ''u1'') = []
   \<and> status (addServiceCharge visit0 charge0 ''u1'') = ''In Queue''
   \<and> isActive (addServiceCharge visit0 charge0 ''u1'')"
  using ledger_frame [of visit0 payment0 "''u1''" charge0]
  by (simp add: recordPayment_def addServiceCharge_def calculateFinancials_def
      visit0_def payment0_def charge0_def)

text \<open>
  C3. When the request resolves to a stored visit \<open>v\<close> whose patient \<open>p\<close> is found, the
  gate answers (status 403, \<open>requiresPayment\<close> set, the visit's \<open>visitId\<close>) exactly
  when \<open>p\<close> has no insurance and the status of \<open>v\<close> is \<^verbatim>\<open>Pending Payment\<close>; in
  every other case it calls the next handler with the visit, its patient and
  \<open>hasInsurance\<close> attached to the request.
\<close>

theorem eligibility_gate:
  assumes "(if truthy (body_visit req) then body_visit req
            else if truthy (body_visitId req) then body_visitId req
            else if truthy (params_id req) then params_id req
            else None) = Some i"
    and "findById d i = Some v"
    and "findPatientById d (patient v) = Some p"
    and "noInsurance = (case insurance p of None \<Rightarrow> True
                        | Some ins \<Rightarrow> (case provider ins of None \<Rightarrow> True | Some s \<Rightarrow> s = []))"
  shows "case checkPaymentEligibility d req of
           Respond r \<Rightarrow>
             (noInsurance \<and> status v = ''Pending Payment'')
             \<and> code r = 403 \<and> requiresPayment r = Some True \<and> res_visitId r = visitId v
         | Next req' \<Rightarrow>
             \<not> (noInsurance \<and> status v = ''Pending Payment'')
             \<and> req' = req\<lparr>req_visit := Some v, req_visitPatient := Some p,
                           req_hasInsurance := Some (\<not> noInsurance),
                           req_patientId := Some (p_id p)\<rparr>"
proof -
  have "hasInsuranceOf p = (\<not> noInsurance)"
    using assms(4) by (simp add: hasInsuranceOf_def truthy_def split: option.splits)
  then show ?thesis
    using assms(1-3) by (simp add: checkPaymentEligibility_def Let_def)
qed

theorem eligibility_gate_witness:
  "findById db0 ''a1'' = Some visitPending
   \<and> findPatientById db0 (patient visitPending) = Some patient1
   \<and> insurance patient1 = None \<and> status visitPending = ''Pending Payment''
   \<and> (case checkPaymentEligibility db0 (request0\<lparr>params_id := Some ''a1''\<rparr>) of
         Respond r \<Rightarrow> code r = 403 \<and> requiresPayment r = Some True
                        \<and> res_visitId r = Some ''V2500001''
       | Next req' \<Rightarrow> False)"
  using eligibility_gate [of "request0\<lparr>params_id := Some ''a1''\<rparr>" "''a1''" db0 visitPending patient1
      True]
  by (simp add: checkPaymentEligibility_def findById_def findPatientById_def hasInsuranceOf_def
      truthy_def db0_def request0_def visitPending_def visit0_def patient1_def patient2_def)

lemma findById_oid: "findById d i = Some v \<Longrightarrow> oid v = i"
  by (auto simp: findById_def find_Some_iff)

lemma find_replace:
  "find (\<lambda>x. oid x = i) xs = Some v \<Longrightarrow> oid v' = i \<Longrightarrow>
   find (\<lambda>x. oid x = i) (map (\<lambda>x. if oid x = i then v' else x) xs) = Some v'"
  by (induction xs) (auto split: if_splits)

lemma findById_saveVisit:
  assumes "findById d i = Some v" and "oid v' = i" and "saveVisit d v' = Inr d'"
  shows "findById d' i = Some v'"
  using assms find_replace [of i "visits d" v v']
  by (auto simp: findById_def saveVisit_def split: if_splits)

lemma saveVisit_Inl: "saveVisit d v = Inl e \<Longrightarrow> \<not> validateVisit v"
  by (simp add: saveVisit_def split: if_splits)

lemma saveVisit_valid: "validateVisit v \<Longrightarrow> \<exists>d'. saveVisit d v = Inr d'"
  by (simp add: saveVisit_def)

text \<open>Every stored visit has passed validation: both ways of saving keep that.\<close>

lemma saveVisit_keeps_valid:
  assumes "list_all validateVisit (visits d)" and "saveVisit d v = Inr d'"
  shows "list_all validateVisit (visits d')"
  using assms by (auto simp: saveVisit_def list_all_iff split: if_splits)

lemma saveNewVisit_keeps_valid:
  assumes "list_all validateVisit (visits d)" and "saveNewVisit d v yr = Inr (v', d')"
  shows "list_all validateVisit (visits d')"
  using assms
  by (auto simp: saveNewVisit_def Let_def list_all_iff validateVisit_def split: if_splits)

lemma validateVisit_recordPayment:
  "validateVisit (recordPayment v pd u) =
     (validateVisit v
      \<and> pd_paymentMethod pd \<in> set [''cash'', ''card'', ''mobile_money'', ''insurance'', ''bank_transfer'']
      \<and> pd_paymentType pd \<in> set [''consultation_fee'', ''service_payment'', ''deposit'', ''full_payment''])"
  by (auto simp: validateVisit_def recordPayment_def calculateFinancials_def Let_def
      validPaymentRecord_def)

text \<open>
  C9. PATCH payment-status on a stored visit \<open>v\<close>: when the status is
  \<^verbatim>\<open>Pending Payment\<close> and the confirmation is supplied (and the stored document
  passes validation) the answer is 200 and the stored visit is \<open>v\<close> with status
  \<^verbatim>\<open>In Queue\<close> and \<open>consultationFeePaid\<close> set; in every other case the answer is 400
  and the store is unchanged; in no case does the operation leave the visit in a state
  other than \<open>v\<close> or that one transition.
\<close>

theorem payment_confirmation:
  assumes "params_id req = Some i" and "findById d i = Some v"
  shows "(status v = ''Pending Payment'' \<and> body_paymentConfirmed req \<and> validateVisit v \<longrightarrow>
            code (fst (patchPaymentStatus d req)) = 200
            \<and> findById (snd (patchPaymentStatus d req)) i
                = Some (v\<lparr>status := ''In Queue'', consultationFeePaid := True\<rparr>))
       \<and> (\<not> (status v = ''Pending Payment'' \<and> body_paymentConfirmed req) \<longrightarrow>
            code (fst (patchPaymentStatus d req)) = 400
            \<and> snd (patchPaymentStatus d req) = d)
       \<and> (findById (snd (patchPaymentStatus d req)) i = Some v
          \<or> status v = ''Pending Payment'' \<and> body_paymentConfirmed req
            \<and> findById (snd (patchPaymentStatus d req)) i
                = Some (v\<lparr>status := ''In Queue'', consultationFeePaid := True\<rparr>))"
proof -
  let ?v' = "v\<lparr>status := ''In Queue'', consultationFeePaid := True\<rparr>"
  have oid: "oid ?v' = i" using assms(2) by (simp add: findById_oid)
  show ?thesis
  proof (cases "status v = ''Pending Payment'' \<and> body_paymentConfirmed req")
    case False
    then show ?thesis using assms
      by (auto simp: patchPaymentStatus_def errorResponse_def)
  next
    case True
    have valid: "validateVisit ?v' = validateVisit v"
      using True by (simp add: validateVisit_def)
    show ?thesis
    proof (cases "saveVisit d ?v'")
      case (Inl e)
      then have "\<not> validateVisit v" using valid saveVisit_Inl by blast
      then show ?thesis using assms True Inl
        by (simp add: patchPaymentStatus_def)
    next
      case (Inr d')
      then have "findById d' i = Some ?v'"
        using findById_saveVisit [OF assms(2) oid] by simp
      then show ?thesis using assms True Inr
        by (simp add: patchPaymentStatus_def successResponse_def)
    qed
  qed
qed

theorem payment_confirmation_witness:
  "params_id (request0\<lparr>params_id := Some ''a1'', body_paymentConfirmed := True\<rparr>) = Some ''a1''
   \<and> findById db0 ''a1'' = Some visitPending
   \<and> status visitPending = ''Pending Payment'' \<and> validateVisit visitPending
   \<and> code (fst (patchPaymentStatus db0
         (request0\<lparr>params_id := Some ''a1'', body_paymentConfirmed := True\<rparr>))) = 200
   \<and> map status (visits (snd (patchPaymentStatus db0
         (request0\<lparr>params_id := Some ''a1'', body_paymentConfirmed := True\<rparr>)))) = [''In Queue'']
   \<and> map consultationFeePaid (visits (snd (patchPaymentStatus db0
         (request0\<lparr>params_id := Some ''a1'', body_paymentConfirmed := True\<rparr>)))) = [True]"
  using payment_confirmation [of "request0\<lparr>params_id := Some ''a1'', body_paymentConfirmed := True\<rparr>"
      "''a1''" db0 visitPending]
  by (simp add: patchPaymentStatus_def findById_def saveVisit_def validateVisit_def Let_def
      successResponse_def truthy_def db0_def request0_def
      visitPending_def visit0_def)

text \<open>
  C7 as worded does not hold: with amount, method and type all present but the method
  outside the enumeration of the schema, saving fails, the answer is 400 and no payment
  record is appended; and a negative amount is recorded like any other.
\<close>

theorem payment_present_counterexample:
  "findById db1 ''a1'' = Some visit0
   \<and> truthyNum (body_amount (requestPay\<lparr>body_paymentMethod := Some ''bitcoin''\<rparr>))
   \<and> truthy (body_paymentMethod (requestPay\<lparr>body_paymentMethod := Some ''bitcoin''\<rparr>))
   \<and> truthy (body_paymentType (requestPay\<lparr>body_paymentMethod := Some ''bitcoin''\<rparr>))
   \<and> code (fst (postPayments db1 (requestPay\<lparr>body_paymentMethod := Some ''bitcoin''\<rparr>))) = 400
   \<and> snd (postPayments db1 (requestPay\<lparr>body_paymentMethod := Some ''bitcoin''\<rparr>)) = db1
   \<and> code (fst (postPayments db1 (requestPay\<lparr>body_amount := Some (- 5)\<rparr>))) = 201
   \<and> map (map pr_amount \<circ> paymentRecords)
        (visits (snd (postPayments db1 (requestPay\<lparr>body_amount := Some (- 5)\<rparr>)))) = [[- 5]]"
  by (simp add: postPayments_def recordPayment_def calculateFinancials_def model_defs ex_defs)

text \<open>
  C7, amended. POST payments on a stored visit \<open>v\<close>. When the amount, the payment method or
  the payment type is missing (or falsy: 0, the empty string) the answer is 400 and the
  store is unchanged. When all three are present, the amount of either sign, with the
  method and the type among the enumerated values of the schema and \<open>v\<close> a document that
  passes validation, the answer is 201 and the stored visit has one more payment record,
  received by the acting user. When all three are present and the method or the type is
  not among the enumerated values, the answer is 400 and the store is unchanged.
\<close>

theorem payment_validation:
  assumes "params_id req = Some i" and "findById d i = Some v"
  shows "(\<not> truthyNum (body_amount req) \<or> \<not> truthy (body_paymentMethod req)
            \<or> \<not> truthy (body_paymentType req) \<longrightarrow>
            code (fst (postPayments d req)) = 400 \<and> snd (postPayments d req) = d)
       \<and> (body_amount req = Some a \<and> a \<noteq> 0
            \<and> body_paymentMethod req = Some m
            \<and> m \<in> set [''cash'', ''card'', ''mobile_money'', ''insurance'', ''bank_transfer'']
            \<and> body_paymentType req = Some t
            \<and> t \<in> set [''consultation_fee'', ''service_payment'', ''deposit'', ''full_payment'']
            \<and> validateVisit v \<longrightarrow>
            code (fst (postPayments d req)) = 201
            \<and> (case findById (snd (postPayments d req)) i of
                  None \<Rightarrow> False
                | Some v' \<Rightarrow>
                    paymentRecords v' = paymentRecords v @ [last (paymentRecords v')]
                    \<and> pr_receivedBy (last (paymentRecords v')) = user_id req
                    \<and> pr_amount (last (paymentRecords v')) = a
                    \<and> pr_paymentMethod (last (paymentRecords v')) = m
                    \<and> pr_paymentType (last (paymentRecords v')) = t))
       \<and> (body_amount req = Some a \<and> a \<noteq> 0
            \<and> body_paymentMethod req = Some m \<and> m \<noteq> []
            \<and> body_paymentType req = Some t \<and> t \<noteq> []
            \<and> (m \<notin> set [''cash'', ''card'', ''mobile_money'', ''insurance'', ''bank_transfer'']
               \<or> t \<notin> set [''consultation_fee'', ''service_payment'', ''deposit'', ''full_payment'']) \<longrightarrow>
            code (fst (postPayments d req)) = 400 \<and> snd (postPayments d req) = d)"
proof (intro conjI impI)
  assume "\<not> truthyNum (body_amount req) \<or> \<not> truthy (body_paymentMethod req)
            \<or> \<not> truthy (body_paymentType req)"
  then show "code (fst (postPayments d req)) = 400" "snd (postPayments d req) = d"
    using assms by (auto simp: postPayments_def errorResponse_def)
next
  assume h: "body_amount req = Some a \<and> a \<noteq> 0
            \<and> body_paymentMethod req = Some m
            \<and> m \<in> set [''cash'', ''card'', ''mobile_money'', ''insurance'', ''bank_transfer'']
            \<and> body_paymentType req = Some t
            \<and> t \<in> set [''consultation_fee'', ''service_payment'', ''deposit'', ''full_payment'']
            \<and> validateVisit v"
  let ?pd = "\<lparr>pd_amount = a, pd_paymentMethod = m, pd_paymentType = t,
               pd_receiptNumber = body_receiptNumber req,
               pd_transactionId = body_transactionId req, pd_notes = body_notes req\<rparr>"
  let ?v' = "recordPayment v ?pd (user_id req)"
  have tr: "truthyNum (body_amount req)" "truthy (body_paymentMethod req)"
    "truthy (body_paymentType req)"
    using h by (auto simp: truthyNum_def truthy_def)
  have "validateVisit ?v'" using h by (simp add: validateVisit_recordPayment)
  then obtain d' where save: "saveVisit d ?v' = Inr d'" using saveVisit_valid by blast
  have oid: "oid ?v' = i" using assms(2)
    by (simp add: findById_oid recordPayment_def calculateFinancials_def Let_def)
  have res: "postPayments d req =
      (successResponse 201 (Some ''Payment recorded successfully'')
         (SummaryData (getPaymentSummary ?v')) None, d')"
    using assms h tr save by (simp add: postPayments_def Let_def)
  have found: "findById d' i = Some ?v'"
    using findById_saveVisit [OF assms(2) oid save] .
  show "code (fst (postPayments d req)) = 201"
    by (simp add: res successResponse_def)
  show "case findById (snd (postPayments d req)) i of
                  None \<Rightarrow> False
                | Some v' \<Rightarrow>
                    paymentRecords v' = paymentRecords v @ [last (paymentRecords v')]
                    \<and> pr_receivedBy (last (paymentRecords v')) = user_id req
                    \<and> pr_amount (last (paymentRecords v')) = a
                    \<and> pr_paymentMethod (last (paymentRecords v')) = m
                    \<and> pr_paymentType (last (paymentRecords v')) = t"
    by (simp add: res found) (simp add: recordPayment_def calculateFinancials_def Let_def)
next
  assume h: "body_amount req = Some a \<and> a \<noteq> 0
            \<and> body_paymentMethod req = Some m \<and> m \<noteq> []
            \<and> body_paymentType req = Some t \<and> t \<noteq> []
            \<and> (m \<notin> set [''cash'', ''card'', ''mobile_money'', ''insurance'', ''bank_transfer'']
               \<or> t \<notin> set [''consultation_fee'', ''service_payment'', ''deposit'', ''full_payment''])"
  let ?pd = "\<lparr>pd_amount = a, pd_paymentMethod = m, pd_paymentType = t,
               pd_receiptNumber = body_receiptNumber req,
               pd_transactionId = body_transactionId req, pd_notes = body_notes req\<rparr>"
  let ?v' = "recordPayment v ?pd (user_id req)"
  have tr: "truthyNum (body_amount req)" "truthy (body_paymentMethod req)"
    "truthy (body_paymentType req)"
    using h by (auto simp: truthyNum_def truthy_def)
  have "\<not> validateVisit ?v'" using h by (auto simp: validateVisit_recordPayment)
  then have save: "saveVisit d ?v' = Inl ValidationError" by (simp add: saveVisit_def)
  have res: "postPayments d req = (errorResponse 400 (errorMessage ValidationError), d)"
    using assms h tr save by (simp add: postPayments_def Let_def)
  show "code (fst (postPayments d req)) = 400" "snd (postPayments d req) = d"
    by (simp_all add: res errorResponse_def)
qed

theorem payment_validation_witness:
  "params_id requestPay = Some ''a1'' \<and> findById db1 ''a1'' = Some visit0
   \<and> validateVisit visit0
   \<and> code (fst (postPayments db1 requestPay)) = 201
   \<and> map (map pr_receivedBy \<circ> paymentRecords) (visits (snd (postPayments db1 requestPay)))
        = [[''u1'']]
   \<and> body_amount (requestPay\<lparr>body_amount := None\<rparr>) = None
   \<and> code (fst (postPayments db1 (requestPay\<lparr>body_amount := None\<rparr>))) = 400
   \<and> snd (postPayments db1 (requestPay\<lparr>body_amount := None\<rparr>)) = db1
   \<and> body_paymentType (requestPay\<lparr>body_paymentType := Some ''tip''\<rparr>) = Some ''tip''
   \<and> code (fst (postPayments db1 (requestPay\<lparr>body_paymentType := Some ''tip''\<rparr>))) = 400
   \<and> snd (postPayments db1 (requestPay\<lparr>body_paymentType := Some ''tip''\<rparr>)) = db1"
  using payment_validation [of requestPay "''a1''" db1 visit0 30 "''cash''" "''full_payment''"]
    payment_validation [of "requestPay\<lparr>body_amount := None\<rparr>" "''a1''" db1 visit0]
    payment_validation [of "requestPay\<lparr>body_paymentType := Some ''tip''\<rparr>" "''a1''" db1 visit0
      30 "''cash''" "''tip''"]
  by (simp add: postPayments_def recordPayment_def calculateFinancials_def model_defs ex_defs)

text \<open>
  C8 as worded does not hold: when the price lookup returns no service, or throws, the lab
  order is stored with price 0 and the visit gets no service charge at all; the
  prescription route records no service charge either (it answers 400 and leaves the
  store as it was).
\<close>

theorem no_charge_without_price_counterexample:
  "code (fst (postLabOrders db1 requestLab ''n1'' (LookupResult None))) = 201
   \<and> map (map lo_price \<circ> labOrders)
        (visits (snd (postLabOrders db1 requestLab ''n1'' (LookupResult None)))) = [[0]]
   \<and> map serviceCharges
        (visits (snd (postLabOrders db1 requestLab ''n1'' (LookupResult None)))) = [[]]
   \<and> code (fst (postLabOrders db1 requestLab ''n1'' LookupThrows)) = 201
   \<and> map serviceCharges
        (visits (snd (postLabOrders db1 requestLab ''n1'' LookupThrows))) = [[]]
   \<and> code (fst (postPrescriptions db1 requestRx ''n1'' (LookupResult None))) = 400
   \<and> snd (postPrescriptions db1 requestRx ''n1'' (LookupResult None)) = db1
   \<and> map serviceCharges
        (visits (snd (postPrescriptions db1 requestRx ''n1'' LookupThrows))) = [[]]"
  by (simp add: postLabOrders_def labOrdersHandler_def postPrescriptions_def
      prescriptionsHandler_def pushOnReference_def checkPaymentEligibility_def
      checkVisitActive_def model_defs ex_defs)

lemma validateVisit_labOrder:
  "validateVisit (v\<lparr>labOrders := labOrders v @ [l]\<rparr>) = (validateVisit v \<and> validLabOrder l)"
  by (auto simp: validateVisit_def)

lemma labOrdersHandler_without_price:
  assumes "service = LookupThrows \<or> service = LookupResult None"
    and "req_visit req = Some v" and "truthy (body_testName req)" and "validateVisit v"
    and "order = \<lparr>lo_id = newId, lo_testName = body_testName req, lo_patient = patient v,
                   lo_orderedBy = user_id req, lo_status = ''Pending'',
                   lo_notes = body_notes req, lo_price = 0,
                   lo_paymentStatus = (if truthyBool (req_hasInsurance req)
                                       then ''insurance_claimed'' else ''pending'')\<rparr>"
    and "v' = v\<lparr>labOrders := labOrders v @ [order]\<rparr>"
  shows "labOrdersHandler d req newId service =
           (successResponse 201 None (LabOrderData order) None,
            d\<lparr>visits := map (\<lambda>x. if oid x = oid v then v' else x) (visits d)\<rparr>)
         \<and> serviceCharges v' = serviceCharges v
         \<and> paymentRecords v' = paymentRecords v
         \<and> totalCharges v' = totalCharges v
         \<and> insuranceCoverage v' = insuranceCoverage v
         \<and> patientResponsibility v' = patientResponsibility v
         \<and> totalPaid v' = totalPaid v
         \<and> outstandingBalance v' = outstandingBalance v
         \<and> allServicesPaid v' = allServicesPaid v"
proof -
  have "validLabOrder order" using assms(3,5) by (simp add: validLabOrder_def)
  then have "validateVisit v'" using assms(4,6) by (simp add: validateVisit_labOrder)
  then have "saveVisit d v' = Inr (d\<lparr>visits := map (\<lambda>x. if oid x = oid v then v' else x) (visits d)\<rparr>)"
    using assms(6) by (simp add: saveVisit_def)
  then show ?thesis using assms(1,2,5,6)
    by (auto simp: labOrdersHandler_def Let_def)
qed

lemma trim_removes_outer_space: "trim '' CBC  '' = ''CBC''"
  by (simp add: trim_def isSpace_def)

lemma prescriptionsHandler_store:
  "snd (prescriptionsHandler d req newId service) = d"
  by (simp add: prescriptionsHandler_def pushOnReference_def Let_def split: option.splits)

lemma createLabTest_without_price:
  assumes "service = LookupThrows \<or> service = LookupResult None"
    and "body_orderData req = Some od" and "truthy (body_patient req)"
    and "lt = \<lparr>lt_id = newId, lt_testName = map_option trim (od_testName od),
                lt_patient = body_patient req, lt_orderedBy = user_id req,
                lt_status = ''Pending''\<rparr>"
  shows "createLabTest d req newId service =
           (successResponse 201 None (LabTestData lt) None, d\<lparr>labTests := labTests d @ [lt]\<rparr>)"
  using assms by (auto simp: createLabTest_def Let_def split: option.splits)

text \<open>
  C8, amended. When the price lookup throws or finds no service, no service charge is
  recorded. The lab-order handler answers 201 without charge information and stores the
  visit with one more lab order of price 0, its service charges, payment records and six
  derived fields unchanged. The controller \<^verbatim>\<open>createLabTest\<close> creates the lab test
  and touches no visit. The prescription handler leaves the service charges, the payment
  records and the six derived fields of every stored visit unchanged.
\<close>

theorem lab_order_without_price:
  assumes "service = LookupThrows \<or> service = LookupResult None"
    and "req_visit req = Some v" and "truthy (body_testName req)" and "validateVisit v"
    and "order = \<lparr>lo_id = newId, lo_testName = body_testName req, lo_patient = patient v,
                   lo_orderedBy = user_id req, lo_status = ''Pending'',
                   lo_notes = body_notes req, lo_price = 0,
                   lo_paymentStatus = (if truthyBool (req_hasInsurance req)
                                       then ''insurance_claimed'' else ''pending'')\<rparr>"
    and "v' = v\<lparr>labOrders := labOrders v @ [order]\<rparr>"
    and "body_orderData req2 = Some od" and "truthy (body_patient req2)"
    and "lt = \<lparr>lt_id = newId, lt_testName = map_option trim (od_testName od),
                lt_patient = body_patient req2, lt_orderedBy = user_id req2,
                lt_status = ''Pending''\<rparr>"
  shows "labOrdersHandler d req newId service =
           (successResponse 201 None (LabOrderData order) None,
            d\<lparr>visits := map (\<lambda>x. if oid x = oid v then v' else x) (visits d)\<rparr>)
         \<and> serviceCharges v' = serviceCharges v
         \<and> paymentRecords v' = paymentRecords v
         \<and> totalCharges v' = totalCharges v
         \<and> insuranceCoverage v' = insuranceCoverage v
         \<and> patientResponsibility v' = patientResponsibility v
         \<and> totalPaid v' = totalPaid v
         \<and> outstandingBalance v' = outstandingBalance v
         \<and> allServicesPaid v' = allServicesPaid v
         \<and> createLabTest d req2 newId service =
             (successResponse 201 None (LabTestData lt) None,
              d\<lparr>labTests := labTests d @ [lt]\<rparr>)
         \<and> map (\<lambda>x. (serviceCharges x, paymentRecords x, totalCharges x, insuranceCoverage x,
                     patientResponsibility x, totalPaid x, outstandingBalance x,
                     allServicesPaid x))
               (visits (snd (prescriptionsHandler d req3 newId service)))
             = map (\<lambda>x. (serviceCharges x, paymentRecords x, totalCharges x, insuranceCoverage x,
                     patientResponsibility x, totalPaid x, outstandingBalance x,
                     allServicesPaid x))
                 (visits d)"
  using labOrdersHandler_without_price [OF assms(1-6)]
    createLabTest_without_price [OF assms(1) assms(7-9)]
  by (simp add: prescriptionsHandler_store)

theorem lab_order_without_price_witness:
  "req_visit (requestLab\<lparr>req_visit := Some visit0, req_hasInsurance := Some False\<rparr>) = Some visit0
   \<and> truthy (body_testName requestLab) \<and> validateVisit visit0
   \<and> code (fst (labOrdersHandler db1
        (requestLab\<lparr>req_visit := Some visit0, req_hasInsurance := Some False\<rparr>) ''n1'' LookupThrows)) = 201
   \<and> map (map lo_price \<circ> labOrders) (visits (snd (labOrdersHandler db1
        (requestLab\<lparr>req_visit := Some visit0, req_hasInsurance := Some False\<rparr>) ''n1'' LookupThrows)))
       = [[0]]
   \<and> map serviceCharges (visits (snd (labOrdersHandler db1
        (requestLab\<lparr>req_visit := Some visit0, req_hasInsurance := Some False\<rparr>) ''n1'' LookupThrows)))
       = [[]]
   \<and> map totalCharges (visits (snd (labOrdersHandler db1
        (requestLab\<lparr>req_visit := Some visit0, req_hasInsurance := Some False\<rparr>) ''n1'' LookupThrows)))
       = [0]
   \<and> body_orderData requestTest = Some \<lparr>od_testName = Some ''CBC'', od_notes = None\<rparr>
   \<and> truthy (body_patient requestTest)
   \<and> code (fst (createLabTest db1 requestTest ''n1'' LookupThrows)) = 201
   \<and> visits (snd (createLabTest db1 requestTest ''n1'' LookupThrows)) = visits db1
   \<and> map lt_id (labTests (snd (createLabTest db1 requestTest ''n1'' LookupThrows))) = [''n1'']
   \<and> map serviceCharges (visits (snd (prescriptionsHandler db1
        (requestRx\<lparr>req_visit := Some visit0, req_hasInsurance := Some False\<rparr>) ''n1'' LookupThrows)))
       = [[]]
   \<and> map totalCharges (visits (snd (prescriptionsHandler db1
        (requestRx\<lparr>req_visit := Some visit0, req_hasInsurance := Some False\<rparr>) ''n1'' LookupThrows)))
       = [0]"
  using lab_order_without_price [of LookupThrows
      "requestLab\<lparr>req_visit := Some visit0, req_hasInsurance := Some False\<rparr>" visit0
      "\<lparr>lo_id = ''n1'', lo_testName = Some ''CBC'', lo_patient = ''p1'',
        lo_orderedBy = ''u1'', lo_status = ''Pending'', lo_notes = None, lo_price = 0,
        lo_paymentStatus = ''pending''\<rparr>" "''n1''"
      "visit0\<lparr>labOrders := [\<lparr>lo_id = ''n1'', lo_testName = Some ''CBC'', lo_patient = ''p1'',
        lo_orderedBy = ''u1'', lo_status = ''Pending'', lo_notes = None, lo_price = 0,
        lo_paymentStatus = ''pending''\<rparr>]\<rparr>" requestTest
      "\<lparr>od_testName = Some ''CBC'', od_notes = None\<rparr>"
      "\<lparr>lt_id = ''n1'', lt_testName = Some ''CBC'', lt_patient = Some ''p1'',
        lt_orderedBy = ''u1'', lt_status = ''Pending''\<rparr>" db1
      "requestRx\<lparr>req_visit := Some visit0, req_hasInsurance := Some False\<rparr>"]
  by (simp add: labOrdersHandler_def createLabTest_def prescriptionsHandler_def
      pushOnReference_def trim_def isSpace_def model_defs ex_defs requestTest_def)

lemma replicate_numeral_unfold:
  "replicate (numeral k) x = x # replicate (pred_numeral k) x"
  by (simp add: numeral_eq_Suc)

lemma saveNewVisit_Inr:
  "saveNewVisit d v yr = Inr (v', d') \<Longrightarrow>
     d' = d\<lparr>visits := visits d @ [v']\<rparr> \<and> status v' = status v \<and> patient v' = patient v
     \<and> isActive v' = isActive v"
  by (auto simp: saveNewVisit_def Let_def split: if_splits)

lemma createVisit_status_computed:
  assumes "body_patientId req = Some pid" and "findPatientById d pid = Some p"
    and "code (fst (createVisit d req newId yr)) = 201"
  shows "visits (snd (createVisit d req newId yr))
           = visits d @ [last (visits (snd (createVisit d req newId yr)))]
       \<and> patient (last (visits (snd (createVisit d req newId yr)))) = pid
       \<and> status (last (visits (snd (createVisit d req newId yr)))) =
           (if hasInsuranceOf p then ''In Queue''
            else case body_status req of
                   None \<Rightarrow> ''Pending Payment''
                 | Some s \<Rightarrow> if s = [] then ''Pending Payment'' else s)"
proof (cases "findActiveVisit d pid")
  case (Some a)
  then show ?thesis using assms by (simp add: createVisit_def errorResponse_def)
next
  case None
  let ?st = "if hasInsuranceOf p then ''In Queue''
             else case orElse (body_status req) (Some ''Pending Payment'') of
                    None \<Rightarrow> [] | Some s \<Rightarrow> s"
  let ?nv = "\<lparr>oid = newId, visitId = None, patient = pid,
                        doctor = body_doctorId req, status = ?st,
                        visitType = body_type req, reason = body_reason req,
                        startedBy = user_id req, labOrders = [], prescriptions = None,
                        serviceCharges = [],
                        paymentRecords = [], totalCharges = 0, insuranceCoverage = 0,
                        patientResponsibility = 0, totalPaid = 0, outstandingBalance = 0,
                        consultationFeePaid = False, consultationFeeAmount = 0,
                        allServicesPaid = False, isActive = True\<rparr>"
  have st: "?st = (if hasInsuranceOf p then ''In Queue''
            else case body_status req of
                   None \<Rightarrow> ''Pending Payment''
                 | Some s \<Rightarrow> if s = [] then ''Pending Payment'' else s)"
    by (simp add: orElse_def truthy_def split: option.splits)
  show ?thesis
  proof (cases "saveNewVisit d ?nv yr")
    case (Inl e)
    then show ?thesis using assms None
      by (simp add: createVisit_def Let_def errorResponse_def)
  next
    case (Inr r)
    obtain v' d' where r: "r = (v', d')" by (cases r)
    have res: "snd (createVisit d req newId yr) = d'"
      using assms None Inr r by (simp add: createVisit_def Let_def)
    from saveNewVisit_Inr [OF Inr [unfolded r]]
    have "d' = d\<lparr>visits := visits d @ [v']\<rparr>" "status v' = ?st" "patient v' = pid"
      by simp_all
    then show ?thesis unfolding res st [symmetric] by simp
  qed
qed

text \<open>Where the seeding works: an insured patient (provider present and non-empty) gets
  status \<^verbatim>\<open>In Queue\<close>, and a patient without insurance gets \<^verbatim>\<open>Pending Payment\<close>
  when the request carries no status.\<close>

lemma createVisit_status_seeded:
  assumes "body_patientId req = Some pid" and "findPatientById d pid = Some p"
    and "code (fst (createVisit d req newId yr)) = 201"
    and "insured = (case insurance p of None \<Rightarrow> False
                    | Some ins \<Rightarrow> (case provider ins of None \<Rightarrow> False | Some s \<Rightarrow> s \<noteq> []))"
  shows "(insured \<longrightarrow>
            status (last (visits (snd (createVisit d req newId yr)))) = ''In Queue'')
       \<and> (\<not> insured \<and> \<not> truthy (body_status req) \<longrightarrow>
            status (last (visits (snd (createVisit d req newId yr)))) = ''Pending Payment'')"
proof -
  have "hasInsuranceOf p = insured"
    using assms(4) by (simp add: hasInsuranceOf_def truthy_def split: option.splits)
  then show ?thesis
    using createVisit_status_computed [OF assms(1-3)]
    by (auto simp: truthy_def split: option.splits)
qed

text \<open>
  C6. For a patient without insurance the handler takes a status supplied in the request
  body as it is: the visit is created with status \<^verbatim>\<open>In Queue\<close>, past the payment
  gate, with \<open>consultationFeePaid\<close> false, while the answer still says that payment is
  required before services can be ordered.
\<close>

theorem uninsured_body_status_bypass:
  "findPatientById db2 ''p1'' = Some patient1 \<and> insurance patient1 = None
   \<and> code (fst (createVisit db2 (requestCreate\<lparr>body_status := Some ''In Queue''\<rparr>) ''a1'' 2025)) = 201
   \<and> message (fst (createVisit db2 (requestCreate\<lparr>body_status := Some ''In Queue''\<rparr>) ''a1'' 2025))
       = Some ''Visit created successfully. Payment is required before services can be ordered.''
   \<and> map status (visits (snd (createVisit db2
        (requestCreate\<lparr>body_status := Some ''In Queue''\<rparr>) ''a1'' 2025))) = [''In Queue'']
   \<and> map consultationFeePaid (visits (snd (createVisit db2
        (requestCreate\<lparr>body_status := Some ''In Queue''\<rparr>) ''a1'' 2025))) = [False]
   \<and> (case checkPaymentEligibility
             (snd (createVisit db2 (requestCreate\<lparr>body_status := Some ''In Queue''\<rparr>) ''a1'' 2025))
             (request0\<lparr>params_id := Some ''a1''\<rparr>) of
         Respond r \<Rightarrow> False
       | Next req' \<Rightarrow> req_hasInsurance req' = Some False)"
  by (simp add: createVisit_def checkPaymentEligibility_def model_defs ex_defs
      replicate_numeral_unfold)

text \<open>Creation itself refuses a patient who has an active visit, naming that visit, and
  leaves the store as it is.\<close>

lemma createVisit_rejects_active:
  assumes "body_patientId req = Some pid" and "findActiveVisit d pid = Some a"
  shows "createVisit d req newId yr =
           (errorResponse 400
              (''Patient already has an active visit (Visit ID: ''
                 @ (case visitId a of None \<Rightarrow> oid a | Some i \<Rightarrow> if i = [] then oid a else i)
                 @ ''). Please end the current visit before starting a new one.''), d)"
  using assms by (simp add: createVisit_def orElse_def truthy_def split: option.splits)

text \<open>
  C5. The end-visit route negates \<open>isActive\<close>. Ending the active visit a1 of patient p1,
  creating a second visit b2 for p1, and calling end-visit on a1 once more leaves p1 with
  two active visits, each step answering with success.
\<close>

theorem end_visit_reactivates:
  "map (\<lambda>v. (oid v, patient v, isActive v)) (visits db1) = [(''a1'', ''p1'', True)]
   \<and> code (fst (endVisitRoute db1 (request0\<lparr>params_id := Some ''a1''\<rparr>))) = 200
   \<and> code (fst (createVisit (snd (endVisitRoute db1 (request0\<lparr>params_id := Some ''a1''\<rparr>)))
              requestCreate ''b2'' 2025)) = 201
   \<and> code (fst (endVisitRoute
              (snd (createVisit (snd (endVisitRoute db1 (request0\<lparr>params_id := Some ''a1''\<rparr>)))
                 requestCreate ''b2'' 2025))
              (request0\<lparr>params_id := Some ''a1''\<rparr>))) = 200
   \<and> map (\<lambda>v. (oid v, patient v, isActive v))
        (visits (snd (endVisitRoute
              (snd (createVisit (snd (endVisitRoute db1 (request0\<lparr>params_id := Some ''a1''\<rparr>)))
                 requestCreate ''b2'' 2025))
              (request0\<lparr>params_id := Some ''a1''\<rparr>))))
       = [(''a1'', ''p1'', True), (''b2'', ''p1'', True)]
   \<and> length (filter (\<lambda>v. patient v = ''p1'' \<and> isActive v)
        (visits (snd (endVisitRoute
              (snd (createVisit (snd (endVisitRoute db1 (request0\<lparr>params_id := Some ''a1''\<rparr>)))
                 requestCreate ''b2'' 2025))
              (request0\<lparr>params_id := Some ''a1''\<rparr>))))) = 2"
  by (simp add: endVisitRoute_def createVisit_def model_defs ex_defs replicate_numeral_unfold)

end
